theory Spec2Isabelle
  imports Complex_Main "HOL-Library.Word"
begin

section \<open>JavaScript values\<close>

text \<open>
  A JavaScript string is a sequence of 16-bit code units. String literals of the source
  are ASCII (apart from two emoji in messages that are not modelled), so they are written
  with \<open>asc\<close>.
\<close>

type_synonym cu = "16 word"
type_synonym jsstring = "cu list"

definition asc :: "string \<Rightarrow> jsstring" where
  "asc s = map (\<lambda>c. of_nat (of_char c)) s"

text \<open>
  A JavaScript number as far as the configuration needs it: NaN, the two infinities and
  the finite values. \<open>truthy\<close> is the test that \<open>x || d\<close> makes on a number.
\<close>

datatype jsnum = NaN | NegInf | Num real | PosInf

fun truthy :: "jsnum \<Rightarrow> bool" where
  "truthy NaN = False"
| "truthy (Num r) = (r \<noteq> 0)"
| "truthy NegInf = True"
| "truthy PosInf = True"

definition or_default :: "jsnum \<Rightarrow> jsnum \<Rightarrow> jsnum" where
  "or_default x d = (if truthy x then x else d)"

text \<open>The comparisons \<open>a > b\<close> and \<open>a >= b\<close> of two numbers; with a NaN both are false.\<close>

fun js_gt :: "jsnum \<Rightarrow> jsnum \<Rightarrow> bool" where
  "js_gt NaN _ = False"
| "js_gt _ NaN = False"
| "js_gt NegInf _ = False"
| "js_gt _ PosInf = False"
| "js_gt PosInf _ = True"
| "js_gt (Num a) NegInf = True"
| "js_gt (Num a) (Num b) = (a > b)"

fun js_ge :: "jsnum \<Rightarrow> jsnum \<Rightarrow> bool" where
  "js_ge NaN _ = False"
| "js_ge _ NaN = False"
| "js_ge a b = (a = b \<or> js_gt a b)"

text \<open>
  \<open>String.prototype.trim\<close> removes the code units of WhiteSpace and LineTerminator
  from both ends.
\<close>

definition js_whitespace :: "cu \<Rightarrow> bool" where
  "js_whitespace c =
     (c \<in> {0x0009, 0x000A, 0x000B, 0x000C, 0x000D, 0x0020, 0x00A0, 0x1680,
            0x2028, 0x2029, 0x202F, 0x205F, 0x3000, 0xFEFF}
      \<or> (0x2000 \<le> c \<and> c \<le> 0x200A))"

definition trim :: "jsstring \<Rightarrow> jsstring" where
  "trim s = rev (dropWhile js_whitespace (rev (dropWhile js_whitespace s)))"

text \<open>\<open>s.split(d)\<close> and \<open>parts.join(d)\<close> for a separator of one code unit.\<close>

fun split_on :: "cu \<Rightarrow> jsstring \<Rightarrow> jsstring list" where
  "split_on d [] = [[]]"
| "split_on d (c # cs) =
     (if c = d then [] # split_on d cs
      else (case split_on d cs of [] \<Rightarrow> [[c]] | p # ps \<Rightarrow> (c # p) # ps))"

fun join_with :: "cu \<Rightarrow> jsstring list \<Rightarrow> jsstring" where
  "join_with d [] = []"
| "join_with d [p] = p"
| "join_with d (p # q # ps) = p @ d # join_with d (q # ps)"

text \<open>
  The decimal rendering of an integer, which is what a template string makes of the
  value of \<open>Date.now()\<close> (an integer number of milliseconds, far below \<open>10^21\<close>).
\<close>

fun digits :: "nat \<Rightarrow> jsstring" where
  "digits n = (if n < 10 then [of_nat (48 + n)] else digits (n div 10) @ [of_nat (48 + n mod 10)])"

declare digits.simps [simp del]

definition show_int :: "int \<Rightarrow> jsstring" where
  "show_int i = (if i < 0 then 0x2D # digits (nat (- i)) else digits (nat i))"





text \<open>\<open>s.endsWith(t)\<close>.\<close>

definition ends_with :: "jsstring \<Rightarrow> jsstring \<Rightarrow> bool" where
  "ends_with s t = (length t \<le> length s \<and> drop (length s - length t) s = t)"

section \<open>Configuration (config/app.config.ts)\<close>

text \<open>
  The parts of \<open>appConfig\<close> that the services read. \<open>num X\<close> stands for
  \<open>Number(process.env.X)\<close> and \<open>env X\<close> for \<open>process.env.X\<close>.
\<close>

record AppConfig =
  database_path :: jsstring
  uploads_directory :: jsstring
  allowedTypes :: "jsstring list"
  maxFileSize :: jsnum
  chunkSize :: jsnum
  chunkOverlap :: jsnum

definition str_or_default :: "jsstring option \<Rightarrow> jsstring \<Rightarrow> jsstring" where
  "str_or_default x d = (case x of None \<Rightarrow> d | Some s \<Rightarrow> if s = [] then d else s)"

definition appConfig :: "(string \<Rightarrow> jsnum) \<Rightarrow> (string \<rightharpoonup> jsstring) \<Rightarrow> AppConfig" where
  "appConfig num env =
     \<lparr> database_path = str_or_default (env ''DATABASE_PATH'') (asc ''./store/vectors.db''),
       uploads_directory = str_or_default (env ''UPLOADS_DIR'') (asc ''uploads''),
       allowedTypes = [asc ''application/pdf'', asc ''text/markdown'', asc ''text/plain''],
       maxFileSize = or_default (num ''MAX_FILE_SIZE'') (Num (10 * 1024 * 1024)),
       chunkSize = or_default (num ''CHUNK_SIZE'') (Num 400),
       chunkOverlap = or_default (num ''CHUNK_OVERLAP'') (Num 50) \<rparr>"

section \<open>File upload service (services/file-upload.service.ts)\<close>

text \<open>The character class \<open>[a-zA-Z0-9.-]\<close> of \<open>generateSafeFilename\<close>.\<close>

definition safe_char :: "cu \<Rightarrow> bool" where
  "safe_char c =
     ((0x61 \<le> c \<and> c \<le> 0x7A) \<or> (0x41 \<le> c \<and> c \<le> 0x5A) \<or> (0x30 \<le> c \<and> c \<le> 0x39)
      \<or> c = 0x2E \<or> c = 0x2D)"

definition replace_unsafe :: "jsstring \<Rightarrow> jsstring" where
  "replace_unsafe s = map (\<lambda>c. if safe_char c then c else 0x5F) s"

definition generateSafeFilename :: "int \<Rightarrow> jsstring \<Rightarrow> jsstring" where
  "generateSafeFilename timestamp originalName =
     (let safeName = replace_unsafe originalName;
          parts = split_on 0x2E safeName
      in if length parts > 1
         then (let extension = last parts;
                   nameWithoutExt = join_with 0x2E (butlast parts)
               in nameWithoutExt @ [0x5F] @ show_int timestamp @ [0x2E] @ extension)
         else safeName @ [0x5F] @ show_int timestamp)"



section \<open>The world outside the services\<close>

text \<open>
  The vector store is the SQLite file at \<open>appConfig.database.path\<close>: absent, or a table
  of rows of which the source identifier and the chunk text matter here. The uploads are
  the files on disk that \<open>saveFile\<close> wrote. \<open>ragApplication\<close> tells whether the field
  of that name of \<open>RAGService\<close> holds an application.
\<close>

record DatabaseRow =
  source :: jsstring
  pageContent :: jsstring

type_synonym store = "DatabaseRow list option"

record world =
  ragApplication :: bool
  db :: store
  uploads :: "jsstring set"

text \<open>The loaders of the embedjs library that the service constructs.\<close>

datatype loader =
    WebLoader jsstring jsnum jsnum
  | PdfLoader jsstring
  | MarkdownLoader jsstring

text \<open>The value \<open>ragApplication.query\<close> resolves to, as \<open>formatResponse\<close> probes it.\<close>

datatype RAGResponse =
    Object "jsstring option" "jsstring option"
  | Str jsstring
  | Other

text \<open>
  What \<open>JSON.stringify\<close> returns when it does not throw: a string, or \<open>undefined\<close> (for
  \<open>undefined\<close> itself, a function or a symbol).
\<close>

datatype jsvalue = Undefined | Text jsstring

text \<open>
  What is not code of this repository is a parameter: the embedjs library
  (\<open>build\<close>, \<open>addLoader\<close>, \<open>lib_query\<close>), the platform (\<open>URL_hostname\<close> for
  \<open>new URL(u).hostname\<close>, \<open>JSON_stringify\<close>, \<open>path_join\<close>, \<open>cwd\<close>) and the
  operating system (\<open>may_unlink\<close>, \<open>mkdir_ok\<close>, \<open>write_ok\<close>). A library call
  takes the store and returns the store it leaves; \<open>None\<close> as its result means that the
  call threw. \<open>addLoader\<close> resolves to the number of entries it added.
\<close>

record externals =
  build :: "jsstring \<Rightarrow> store \<Rightarrow> bool \<times> store"
  addLoader :: "loader \<Rightarrow> store \<Rightarrow> nat option \<times> store"
  lib_query :: "jsstring \<Rightarrow> store \<Rightarrow> RAGResponse option"
  URL_hostname :: "jsstring \<rightharpoonup> jsstring"
  JSON_stringify :: "RAGResponse \<rightharpoonup> jsvalue"
  path_join :: "jsstring \<Rightarrow> jsstring \<Rightarrow> jsstring"
  cwd :: jsstring
  may_unlink :: "jsstring \<Rightarrow> bool"
  mkdir_ok :: "jsstring \<Rightarrow> bool"
  write_ok :: "jsstring \<Rightarrow> bool"

text \<open>
  Every \<open>new Error(...)\<close> of the source, by the place that throws it, and the
  \<open>TypeError\<close> of \<open>answer.replace\<close> in the chat handler when the answer is no string
  (\<open>AnswerIsNotAString\<close>).
\<close>

datatype err =
    NotInitialized
  | FailedToInitialize
  | FailedToLoadWebSource jsstring
  | FailedToLoadFile jsstring
  | UnsupportedFileType jsstring
  | FailedToProcessQuery
  | FailedToClearSources
  | FileSizeExceeds
  | FileTypeNotSupported jsstring
  | FileNameRequired
  | FailedToSaveUploadedFile
  | QueryCannotBeEmpty
  | ServiceNotInitialized
  | ValidURLRequired
  | InvalidURLFormat
  | AnswerIsNotAString

text \<open>
  \<open>fs.unlink\<close> of an uploaded file and of the database file: it succeeds when the file
  exists and the operating system lets it go, and throws otherwise.
\<close>

definition unlink_upload :: "externals \<Rightarrow> jsstring \<Rightarrow> world \<Rightarrow> bool \<times> world" where
  "unlink_upload ext p w =
     (if p \<in> uploads w \<and> may_unlink ext p
      then (True, w\<lparr>uploads := uploads w - {p}\<rparr>)
      else (False, w))"

definition unlink_db :: "externals \<Rightarrow> AppConfig \<Rightarrow> world \<Rightarrow> bool \<times> world" where
  "unlink_db ext cfg w =
     (if db w \<noteq> None \<and> may_unlink ext (database_path cfg)
      then (True, w\<lparr>db := None\<rparr>)
      else (False, w))"

section \<open>Database service (services/database.service.ts)\<close>

text \<open>
  The two queries: the distinct non-null sources, each at the place of its first row, and
  whether the table has a row. A missing file or table makes the query throw, which the
  service turns into the empty list and into \<open>false\<close>.
\<close>

definition record_count :: "world \<Rightarrow> nat" where
  "record_count w = (case db w of None \<Rightarrow> 0 | Some rows \<Rightarrow> length rows)"

definition distinct_sources :: "world \<Rightarrow> jsstring list" where
  "distinct_sources w =
     (case db w of None \<Rightarrow> [] | Some rows \<Rightarrow> rev (remdups (rev (map source rows))))"

definition databaseExists :: "world \<Rightarrow> bool" where
  "databaseExists w = (record_count w > 0)"

text \<open>
  \<open>formatSource\<close>: a source that parses as a URL is shown by its host name, any other by
  its last path segment. The icons are the code units of the four emoji of the source.
\<close>

datatype source_type = Web | Pdf | Markdown | PlainText | Unknown

record SourceItem =
  item_source :: jsstring
  displayName :: jsstring
  icon :: jsstring
  item_type :: source_type

definition last_segment :: "jsstring \<Rightarrow> jsstring" where
  "last_segment s = (let p = last (split_on 0x2F s) in if p = [] then s else p)"

definition formatSource :: "externals \<Rightarrow> jsstring \<Rightarrow> SourceItem" where
  "formatSource ext s =
     (case URL_hostname ext s of
        Some hostname \<Rightarrow>
          \<lparr>item_source = s, displayName = hostname, icon = [0xD83C, 0xDF10], item_type = Web\<rparr>
      | None \<Rightarrow>
          if ends_with s (asc ''.pdf'')
          then \<lparr>item_source = s, displayName = last_segment s, icon = [0xD83D, 0xDCD5],
                 item_type = Pdf\<rparr>
          else if ends_with s (asc ''.md'')
          then \<lparr>item_source = s, displayName = last_segment s, icon = [0xD83D, 0xDCDD],
                 item_type = Markdown\<rparr>
          else if ends_with s (asc ''.txt'')
          then \<lparr>item_source = s, displayName = last_segment s, icon = [0xD83D, 0xDCDD],
                 item_type = PlainText\<rparr>
          else if 0x2F \<in> set s
          then \<lparr>item_source = s, displayName = last_segment s, icon = [0xD83D, 0xDCC4],
                 item_type = Unknown\<rparr>
          else \<lparr>item_source = s, displayName = s, icon = [0xD83D, 0xDCC4], item_type = Unknown\<rparr>)"

definition getSources :: "externals \<Rightarrow> world \<Rightarrow> SourceItem list" where
  "getSources ext w = map (formatSource ext) (distinct_sources w)"

section \<open>File upload service, continued\<close>

record File =
  name :: jsstring
  type :: jsstring
  fsize :: nat

record UploadedFile =
  up_name :: jsstring
  up_type :: jsstring
  up_size :: nat
  up_path :: jsstring

definition validateFile :: "AppConfig \<Rightarrow> File \<Rightarrow> err option" where
  "validateFile cfg file =
     (if js_gt (Num (real (fsize file))) (maxFileSize cfg) then Some FileSizeExceeds
      else if type file \<notin> set (allowedTypes cfg) then Some (FileTypeNotSupported (type file))
      else if name file = [] then Some FileNameRequired
      else None)"

definition saveFile ::
  "externals \<Rightarrow> AppConfig \<Rightarrow> int \<Rightarrow> File \<Rightarrow> world \<Rightarrow> (err + UploadedFile) \<times> world" where
  "saveFile ext cfg now file w =
     (case validateFile cfg file of
        Some e \<Rightarrow> (Inl e, w)
      | None \<Rightarrow>
          if \<not> mkdir_ok ext (uploads_directory cfg) then (Inl FailedToSaveUploadedFile, w)
          else
            (let safeFilename = generateSafeFilename now (name file);
                 filePath = path_join ext (uploads_directory cfg) safeFilename;
                 fullPath = path_join ext (cwd ext) filePath
             in if \<not> write_ok ext fullPath then (Inl FailedToSaveUploadedFile, w)
                else (Inr \<lparr> up_name = safeFilename, up_type = type file,
                            up_size = fsize file, up_path = fullPath \<rparr>,
                      w\<lparr>uploads := insert fullPath (uploads w)\<rparr>)))"


section \<open>RAG service (services/rag.service.ts)\<close>

definition initialize :: "externals \<Rightarrow> AppConfig \<Rightarrow> world \<Rightarrow> (err + unit) \<times> world" where
  "initialize ext cfg w =
     (case build ext (database_path cfg) (db w) of
        (False, d) \<Rightarrow> (Inl FailedToInitialize, w\<lparr>db := d\<rparr>)
      | (True, d) \<Rightarrow> (Inr (), w\<lparr>ragApplication := True, db := d\<rparr>))"

definition isInitialized :: "world \<Rightarrow> bool" where
  "isInitialized w = ragApplication w"

definition createLoader :: "jsstring \<Rightarrow> jsstring \<Rightarrow> err + loader" where
  "createLoader filePath fileType =
     (if fileType = asc ''application/pdf'' then Inr (PdfLoader filePath)
      else if fileType = asc ''text/markdown'' \<or> fileType = asc ''text/plain''
      then Inr (MarkdownLoader filePath)
      else Inl (UnsupportedFileType fileType))"

text \<open>
  \<open>addWebSource\<close> up to its \<open>await\<close>: the guard, and the loader handed to the library.
\<close>

definition web_loader :: "AppConfig \<Rightarrow> jsstring \<Rightarrow> loader" where
  "web_loader cfg url = WebLoader url (chunkSize cfg) (chunkOverlap cfg)"

definition addWebSource ::
  "externals \<Rightarrow> AppConfig \<Rightarrow> jsstring \<Rightarrow> world \<Rightarrow> (err + jsstring) \<times> world" where
  "addWebSource ext cfg url w =
     (if \<not> ragApplication w then (Inl NotInitialized, w)
      else
        (case addLoader ext (web_loader cfg url) (db w) of
           (None, d) \<Rightarrow> (Inl (FailedToLoadWebSource url), w\<lparr>db := d\<rparr>)
         | (Some n, d) \<Rightarrow>
             (case URL_hostname ext url of
                None \<Rightarrow> (Inl (FailedToLoadWebSource url), w\<lparr>db := d\<rparr>)
              | Some hostname \<Rightarrow>
                  (Inr (asc ''<div>- '' @ hostname @ asc ''</div>''), w\<lparr>db := d\<rparr>))))"

text \<open>
  In \<open>addFileSource\<close> the result of either \<open>fs.unlink\<close> is only logged, so the model
  drops it with \<open>snd\<close>.
\<close>

definition addFileSource ::
  "externals \<Rightarrow> jsstring \<Rightarrow> jsstring \<Rightarrow> jsstring \<Rightarrow> world \<Rightarrow> (err + jsstring) \<times> world" where
  "addFileSource ext filePath fileType fileName w =
     (if \<not> ragApplication w then (Inl NotInitialized, w)
      else
        (case createLoader filePath fileType of
           Inl e \<Rightarrow> (Inl (FailedToLoadFile fileName), snd (unlink_upload ext filePath w))
         | Inr loader \<Rightarrow>
             (case addLoader ext loader (db w) of
                (None, d) \<Rightarrow>
                  (Inl (FailedToLoadFile fileName), snd (unlink_upload ext filePath (w\<lparr>db := d\<rparr>)))
              | (Some n, d) \<Rightarrow>
                  (Inr (asc ''<div>- '' @ fileName @ asc ''</div>''),
                   snd (unlink_upload ext filePath (w\<lparr>db := d\<rparr>))))))"

text \<open>
  \<open>formatResponse\<close>: a field counts when it is present and truthy, that is, a non-empty
  string. \<open>JSON.stringify\<close> may throw (\<open>None\<close>), and \<open>query\<close> catches that like any
  other failure; it may also return \<open>undefined\<close>, which \<open>query\<close> then resolves to.
\<close>

definition truthy_field :: "jsstring option \<Rightarrow> jsstring option" where
  "truthy_field field = (case field of None \<Rightarrow> None | Some s \<Rightarrow> if s = [] then None else Some s)"

definition formatResponse :: "externals \<Rightarrow> RAGResponse \<Rightarrow> jsvalue option" where
  "formatResponse ext answer =
     (case answer of
        Object content text \<Rightarrow>
          (case truthy_field content of
             Some c \<Rightarrow> Some (Text c)
           | None \<Rightarrow>
               (case truthy_field text of
                  Some t \<Rightarrow> Some (Text t)
                | None \<Rightarrow> JSON_stringify ext answer))
      | Str s \<Rightarrow> Some (Text s)
      | Other \<Rightarrow> JSON_stringify ext answer)"

definition query :: "externals \<Rightarrow> jsstring \<Rightarrow> world \<Rightarrow> err + jsvalue" where
  "query ext question w =
     (if \<not> ragApplication w then Inl NotInitialized
      else
        (case lib_query ext question (db w) of
           None \<Rightarrow> Inl FailedToProcessQuery
         | Some answer \<Rightarrow>
             (case formatResponse ext answer of
                None \<Rightarrow> Inl FailedToProcessQuery
              | Some v \<Rightarrow> Inr v)))"

definition clearSources :: "externals \<Rightarrow> AppConfig \<Rightarrow> world \<Rightarrow> (err + unit) \<times> world" where
  "clearSources ext cfg w =
     (case initialize ext cfg (snd (unlink_db ext cfg w)) of
        (Inl e, w') \<Rightarrow> (Inl FailedToClearSources, w')
      | (Inr u, w') \<Rightarrow> (Inr (), w'))"

section \<open>The server (main.ts)\<close>

text \<open>
  Startup: both services are initialised; a failure ends the process (\<open>None\<close>).
\<close>

definition initializeApp :: "externals \<Rightarrow> AppConfig \<Rightarrow> world \<Rightarrow> world option" where
  "initializeApp ext cfg w =
     (case initialize ext cfg w of
        (Inl e, w') \<Rightarrow> None
      | (Inr u, w') \<Rightarrow> if mkdir_ok ext (uploads_directory cfg) then Some w' else None)"

text \<open>
  The handlers, up to the \<open>catch\<close> that renders the error: \<open>Inl e\<close> is the error that
  \<open>handleError\<close> turns into markup, \<open>Inr s\<close> the body returned. The request schema
  makes \<open>url\<close> and \<open>query\<close> strings and \<open>file\<close> a file; \<open>new URL(u)\<close> throws
  exactly when \<open>URL_hostname\<close> has no value at \<open>u\<close>.
\<close>

definition add_source_handler ::
  "externals \<Rightarrow> AppConfig \<Rightarrow> jsstring \<Rightarrow> world \<Rightarrow> (err + jsstring) \<times> world" where
  "add_source_handler ext cfg url w =
     (if url = [] then (Inl ValidURLRequired, w)
      else if URL_hostname ext url = None then (Inl InvalidURLFormat, w)
      else addWebSource ext cfg url w)"

definition add_file_handler ::
  "externals \<Rightarrow> AppConfig \<Rightarrow> int \<Rightarrow> File \<Rightarrow> world \<Rightarrow> (err + jsstring) \<times> world" where
  "add_file_handler ext cfg now file w =
     (case saveFile ext cfg now file w of
        (Inl e, w') \<Rightarrow> (Inl e, w')
      | (Inr uploadedFile, w') \<Rightarrow>
          addFileSource ext (up_path uploadedFile) (up_type uploadedFile) (up_name uploadedFile) w')"

definition escape_quotes :: "jsstring \<Rightarrow> jsstring" where
  "escape_quotes s = concat (map (\<lambda>c. if c = 0x22 then asc ''&quot;'' else [c]) s)"

definition assistant_message :: "jsstring \<Rightarrow> jsstring" where
  "assistant_message answer =
     asc ''<div class='' @ [0x22] @ asc ''assistant-message'' @ [0x22]
     @ asc '' data-markdown='' @ [0x22] @ escape_quotes answer @ [0x22]
     @ asc ''>'' @ answer @ asc ''</div>''"

definition chat_handler :: "externals \<Rightarrow> jsstring \<Rightarrow> world \<Rightarrow> err + jsstring" where
  "chat_handler ext q w =
     (if q = [] \<or> length (trim q) = 0 then Inl QueryCannotBeEmpty
      else if \<not> isInitialized w then Inl ServiceNotInitialized
      else
        (case query ext (trim q) w of
           Inl e \<Rightarrow> Inl e
         | Inr Undefined \<Rightarrow> Inl AnswerIsNotAString
         | Inr (Text answer) \<Rightarrow> Inr (assistant_message answer)))"


section \<open>Requests in flight\<close>

text \<open>
  \<open>addWebSource\<close> and \<open>addFileSource\<close> are asynchronous: a call runs up to the
  \<open>await\<close> of the library's \<open>addLoader\<close> and is then in flight until that promise
  settles, while the server takes further requests. The service keeps no record of the
  calls in flight; the list below is the event loop's.
\<close>

datatype request =
    AddWebSource jsstring
  | AddFileSource jsstring jsstring jsstring

fun source_id :: "request \<Rightarrow> jsstring" where
  "source_id (AddWebSource url) = url"
| "source_id (AddFileSource filePath fileType fileName) = filePath"

record server =
  state :: world
  in_flight :: "request list"

text \<open>
  \<open>submit\<close> is the part of a call before the \<open>await\<close>: \<open>Some e\<close> when it throws
  before the library is called, \<open>None\<close> when the library call has started.
\<close>

definition submit :: "externals \<Rightarrow> request \<Rightarrow> server \<Rightarrow> err option \<times> server" where
  "submit ext req s =
     (if \<not> ragApplication (state s) then (Some NotInitialized, s)
      else
        (case req of
           AddWebSource url \<Rightarrow> (None, s\<lparr>in_flight := in_flight s @ [req]\<rparr>)
         | AddFileSource filePath fileType fileName \<Rightarrow>
             (case createLoader filePath fileType of
                Inl e \<Rightarrow>
                  (Some (FailedToLoadFile fileName),
                   s\<lparr>state := snd (unlink_upload ext filePath (state s))\<rparr>)
              | Inr loader \<Rightarrow> (None, s\<lparr>in_flight := in_flight s @ [req]\<rparr>))))"

text \<open>
  \<open>settle\<close> is the rest of a call in flight: the library call takes effect and the call
  returns or throws.
\<close>

definition settle ::
  "externals \<Rightarrow> AppConfig \<Rightarrow> request \<Rightarrow> server \<Rightarrow> ((err + jsstring) \<times> server) option" where
  "settle ext cfg req s =
     (if req \<notin> set (in_flight s) then None
      else
        (case (case req of
                 AddWebSource url \<Rightarrow> addWebSource ext cfg url (state s)
               | AddFileSource filePath fileType fileName \<Rightarrow>
                   addFileSource ext filePath fileType fileName (state s)) of
           (r, w') \<Rightarrow> Some (r, \<lparr>state = w', in_flight = remove1 req (in_flight s)\<rparr>)))"

section \<open>Example environments\<close>

text \<open>
  Concrete surroundings for the examples below. In \<open>example_ext\<close> the library opens or
  creates the store, a load adds one row for its source, a query answers, files can be
  written and removed. As the library's text splitter does, a web load throws when the
  chunk overlap is not below the chunk size.
\<close>

definition rows_of :: "store \<Rightarrow> DatabaseRow list" where
  "rows_of d = (case d of None \<Rightarrow> [] | Some rows \<Rightarrow> rows)"

fun loader_source :: "loader \<Rightarrow> jsstring" where
  "loader_source (WebLoader url cs co) = url"
| "loader_source (PdfLoader p) = p"
| "loader_source (MarkdownLoader p) = p"

fun library_rejects :: "loader \<Rightarrow> bool" where
  "library_rejects (WebLoader url cs co) = js_ge co cs"
| "library_rejects (PdfLoader p) = False"
| "library_rejects (MarkdownLoader p) = False"

definition first_chunk :: "loader \<Rightarrow> DatabaseRow" where
  "first_chunk l = \<lparr>source = loader_source l, pageContent = asc ''chunk 0''\<rparr>"

definition example_ext :: externals where
  "example_ext =
     \<lparr> build = (\<lambda>p d. (True, Some (rows_of d))),
       addLoader = (\<lambda>l d. if library_rejects l then (None, d)
                          else (Some 1, Some (rows_of d @ [first_chunk l]))),
       lib_query = (\<lambda>q d. Some (Object (Some (asc ''forty-two'')) None)),
       URL_hostname = [asc ''https://example.com/docs'' \<mapsto> asc ''example.com''],
       JSON_stringify =
         [Object (Some []) None \<mapsto>
            Text (asc ''{'' @ [0x22] @ asc ''content'' @ [0x22] @ asc '':'' @ [0x22, 0x22]
                  @ asc ''}'')],
       path_join = (\<lambda>a b. a @ [0x2F] @ b),
       cwd = asc ''/app'',
       may_unlink = (\<lambda>p. True),
       mkdir_ok = (\<lambda>p. True),
       write_ok = (\<lambda>p. True) \<rparr>"

text \<open>The library writes the first chunk of a source and fails on the second.\<close>

definition ext_fails_after_first_chunk :: externals where
  "ext_fails_after_first_chunk =
     example_ext\<lparr>addLoader := (\<lambda>l d. (None, Some (rows_of d @ [first_chunk l])))\<rparr>"

text \<open>A load that adds seven entries.\<close>

definition ext_seven_chunks :: externals where
  "ext_seven_chunks =
     example_ext\<lparr>addLoader := (\<lambda>l d. if library_rejects l then (None, d)
        else (Some 7, Some (rows_of d @ replicate 7 (first_chunk l))))\<rparr>"

text \<open>The operating system refuses to remove files.\<close>

definition ext_no_unlink :: externals where
  "ext_no_unlink = example_ext\<lparr>may_unlink := (\<lambda>p. False)\<rparr>"

text \<open>The generator answers with empty content.\<close>

definition ext_empty_answer :: externals where
  "ext_empty_answer = example_ext\<lparr>lib_query := (\<lambda>q d. Some (Object (Some []) None))\<rparr>"

text \<open>The configuration with no environment variable set, and one with an overlap above the chunk size.\<close>

definition default_config :: AppConfig where
  "default_config = appConfig (\<lambda>x. NaN) Map.empty"

definition overlap_config :: AppConfig where
  "overlap_config =
     appConfig (\<lambda>x. if x = ''CHUNK_SIZE'' then Num 100
                     else if x = ''CHUNK_OVERLAP'' then Num 200 else NaN) Map.empty"

definition ready_world :: world where
  "ready_world = \<lparr>ragApplication = True, db = Some [], uploads = {}\<rparr>"

definition fresh_world :: world where
  "fresh_world = \<lparr>ragApplication = False, db = None, uploads = {}\<rparr>"

definition ready_server :: server where
  "ready_server = \<lparr>state = ready_world, in_flight = []\<rparr>"

definition docs_url :: jsstring where
  "docs_url = asc ''https://example.com/docs''"

definition notes_path :: jsstring where
  "notes_path = asc ''/app/uploads/notes_42.md''"

definition one_row :: DatabaseRow where
  "one_row = \<lparr>source = docs_url, pageContent = asc ''chunk 0''\<rparr>"

definition big_png :: File where
  "big_png = \<lparr>name = asc ''big.png'', type = asc ''image/png'', fsize = 10485761\<rparr>"

definition small_png :: File where
  "small_png = \<lparr>name = asc ''pic.png'', type = asc ''image/png'', fsize = 2048\<rparr>"


section \<open>Saved file names\<close>

























lemma safe_char_explicit:
  "safe_char c \<longleftrightarrow>
     (0x61 \<le> c \<and> c \<le> 0x7A) \<or> (0x41 \<le> c \<and> c \<le> 0x5A) \<or> (0x30 \<le> c \<and> c \<le> 0x39)
     \<or> c = 0x2E \<or> c = 0x2D"
  by (simp add: safe_char_def)







section \<open>Ingestion\<close>

subsection \<open>Failure of an ingestion\<close>

lemma partial_run:
  "addFileSource ext_fails_after_first_chunk notes_path (asc ''text/markdown'')
      (asc ''notes_42.md'') (ready_world\<lparr>uploads := {notes_path}\<rparr>)
   = (Inl (FailedToLoadFile (asc ''notes_42.md'')),
      \<lparr>ragApplication = True,
       db = Some [\<lparr>source = notes_path, pageContent = asc ''chunk 0''\<rparr>],
       uploads = {}\<rparr>)"
  by (simp add: addFileSource_def createLoader_def ext_fails_after_first_chunk_def example_ext_def
      ready_world_def unlink_upload_def rows_of_def first_chunk_def asc_def notes_path_def)

text \<open>
  Claim C1 says that an ingestion which fails after chunks were written leaves the store
  as if it had never started. The service has no rollback. What holds: when the library's
  \<open>addLoader\<close> throws, \<open>addFileSource\<close> throws \<open>Failed to load file\<close> and the store is
  exactly the one \<open>addLoader\<close> left, so rows written before the failure stay; when
  \<open>createLoader\<close> throws, the library is not called and the store is unchanged; in both
  cases the uploaded file is gone if the operating system lets it go, and the uploads are
  unchanged otherwise. When \<open>addLoader\<close> throws in \<open>addWebSource\<close>, it throws
  \<open>Failed to load web source\<close> and the state is the old one with the store that
  \<open>addLoader\<close> left.
\<close>

theorem ingestion_failure_keeps_library_writes:
  "(ragApplication w \<and> createLoader filePath fileType = Inr l
      \<and> addLoader ext l (db w) = (None, d) \<longrightarrow>
        fst (addFileSource ext filePath fileType fileName w) = Inl (FailedToLoadFile fileName)
        \<and> db (snd (addFileSource ext filePath fileType fileName w)) = d
        \<and> uploads (snd (addFileSource ext filePath fileType fileName w))
            = (if may_unlink ext filePath then uploads w - {filePath} else uploads w))
   \<and> (ragApplication w \<and> createLoader filePath fileType = Inl e \<longrightarrow>
        fst (addFileSource ext filePath fileType fileName w) = Inl (FailedToLoadFile fileName)
        \<and> db (snd (addFileSource ext filePath fileType fileName w)) = db w
        \<and> uploads (snd (addFileSource ext filePath fileType fileName w))
            = (if may_unlink ext filePath then uploads w - {filePath} else uploads w))
   \<and> (ragApplication w \<and> addLoader ext (web_loader cfg url) (db w) = (None, d) \<longrightarrow>
        addWebSource ext cfg url w = (Inl (FailedToLoadWebSource url), w\<lparr>db := d\<rparr>))"
proof -
  have u: "uploads (snd (unlink_upload ext filePath v))
             = (if may_unlink ext filePath then uploads v - {filePath} else uploads v)"
      and k: "db (snd (unlink_upload ext filePath v)) = db v" for v
    by (auto simp: unlink_upload_def)
  have 1: "ragApplication w \<and> createLoader filePath fileType = Inr l
      \<and> addLoader ext l (db w) = (None, d) \<longrightarrow>
        fst (addFileSource ext filePath fileType fileName w) = Inl (FailedToLoadFile fileName)
        \<and> db (snd (addFileSource ext filePath fileType fileName w)) = d
        \<and> uploads (snd (addFileSource ext filePath fileType fileName w))
            = (if may_unlink ext filePath then uploads w - {filePath} else uploads w)"
    by (simp add: addFileSource_def u k)
  have 2: "ragApplication w \<and> createLoader filePath fileType = Inl e \<longrightarrow>
        fst (addFileSource ext filePath fileType fileName w) = Inl (FailedToLoadFile fileName)
        \<and> db (snd (addFileSource ext filePath fileType fileName w)) = db w
        \<and> uploads (snd (addFileSource ext filePath fileType fileName w))
            = (if may_unlink ext filePath then uploads w - {filePath} else uploads w)"
    by (simp add: addFileSource_def u k)
  have 3: "ragApplication w \<and> addLoader ext (web_loader cfg url) (db w) = (None, d) \<longrightarrow>
        addWebSource ext cfg url w = (Inl (FailedToLoadWebSource url), w\<lparr>db := d\<rparr>)"
    by (simp add: addWebSource_def)
  show ?thesis by (intro conjI 1 2 3)
qed

theorem ingestion_failure_keeps_library_writes_witness:
  "ragApplication (ready_world\<lparr>uploads := {notes_path}\<rparr>)
   \<and> createLoader notes_path (asc ''text/markdown'') = Inr (MarkdownLoader notes_path)
   \<and> addLoader ext_fails_after_first_chunk (MarkdownLoader notes_path)
        (db (ready_world\<lparr>uploads := {notes_path}\<rparr>))
      = (None, Some [\<lparr>source = notes_path, pageContent = asc ''chunk 0''\<rparr>])
   \<and> db (snd (addFileSource ext_fails_after_first_chunk notes_path (asc ''text/markdown'')
        (asc ''notes_42.md'') (ready_world\<lparr>uploads := {notes_path}\<rparr>)))
      = Some [\<lparr>source = notes_path, pageContent = asc ''chunk 0''\<rparr>]
   \<and> may_unlink ext_fails_after_first_chunk notes_path
   \<and> uploads (snd (addFileSource ext_fails_after_first_chunk notes_path (asc ''text/markdown'')
        (asc ''notes_42.md'') (ready_world\<lparr>uploads := {notes_path}\<rparr>))) = {}"
proof -
  have m: "may_unlink ext_fails_after_first_chunk notes_path"
    by (simp add: ext_fails_after_first_chunk_def example_ext_def)
  have n: "uploads (ready_world\<lparr>uploads := {notes_path}\<rparr>) - {notes_path} = {}" by simp
  have a: "ragApplication (ready_world\<lparr>uploads := {notes_path}\<rparr>)"
    by (simp add: ready_world_def)
  have b: "createLoader notes_path (asc ''text/markdown'') = Inr (MarkdownLoader notes_path)"
    by (simp add: createLoader_def asc_def)
  have c: "addLoader ext_fails_after_first_chunk (MarkdownLoader notes_path)
        (db (ready_world\<lparr>uploads := {notes_path}\<rparr>))
      = (None, Some [\<lparr>source = notes_path, pageContent = asc ''chunk 0''\<rparr>])"
    by (simp add: ext_fails_after_first_chunk_def example_ext_def ready_world_def rows_of_def
        first_chunk_def)
  note r = ingestion_failure_keeps_library_writes [of "ready_world\<lparr>uploads := {notes_path}\<rparr>"
        notes_path "asc ''text/markdown''" "MarkdownLoader notes_path"
        ext_fails_after_first_chunk
        "Some [\<lparr>source = notes_path, pageContent = asc ''chunk 0''\<rparr>]" "asc ''notes_42.md''",
        THEN conjunct1, THEN mp, OF conjI [OF a conjI [OF b c]]]
  show ?thesis
    unfolding r [THEN conjunct2, THEN conjunct1] r [THEN conjunct2, THEN conjunct2] if_P [OF m] n
    by (intro conjI a b c m refl)
qed

text \<open>
  The library writes one chunk of \<open>notes_42.md\<close> and fails: the call throws, and the
  store that held no row now holds one, of that source.
\<close>

theorem ingestion_no_rollback_counterexample:
  "fst (addFileSource ext_fails_after_first_chunk notes_path (asc ''text/markdown'')
      (asc ''notes_42.md'') (ready_world\<lparr>uploads := {notes_path}\<rparr>))
     = Inl (FailedToLoadFile (asc ''notes_42.md''))
   \<and> record_count (ready_world\<lparr>uploads := {notes_path}\<rparr>) = 0
   \<and> record_count (snd (addFileSource ext_fails_after_first_chunk notes_path (asc ''text/markdown'')
      (asc ''notes_42.md'') (ready_world\<lparr>uploads := {notes_path}\<rparr>))) = 1
   \<and> distinct_sources (snd (addFileSource ext_fails_after_first_chunk notes_path
      (asc ''text/markdown'') (asc ''notes_42.md'') (ready_world\<lparr>uploads := {notes_path}\<rparr>)))
     = [notes_path]"
  unfolding partial_run
  by (simp add: record_count_def distinct_sources_def ready_world_def)

subsection \<open>Requests for a source that is being ingested\<close>

lemma settle_runs_the_call:
  "settle ext cfg (AddWebSource url) s = Some (r, s') \<Longrightarrow>
     r = fst (addWebSource ext cfg url (state s)) \<and> state s' = snd (addWebSource ext cfg url (state s))"
  by (auto simp: settle_def split: if_splits prod.splits)

text \<open>
  Claim C2 says that a second ingestion of a source that is still being ingested is
  rejected with \<open>IngestionInProgress\<close>. The service has no such error and keeps no mark
  of the calls in flight. What holds: on an initialised service every web ingestion starts
  its library call, and so does every file ingestion whose type has a loader, whatever is
  in flight, the same source included; a call that throws before the library is called
  throws \<open>RAG application not initialized\<close> or, for a file without a loader,
  \<open>Failed to load file\<close>, and adds nothing to the calls in flight.
\<close>

theorem submit_accepts_regardless_of_in_flight:
  "(ragApplication (state s) \<longrightarrow>
      submit ext (AddWebSource url) s
        = (None, s\<lparr>in_flight := in_flight s @ [AddWebSource url]\<rparr>))
   \<and> (ragApplication (state s) \<and> createLoader filePath fileType = Inr l \<longrightarrow>
      submit ext (AddFileSource filePath fileType fileName) s
        = (None, s\<lparr>in_flight := in_flight s @ [AddFileSource filePath fileType fileName]\<rparr>))
   \<and> (\<forall>e s'. submit ext req s = (Some e, s') \<longrightarrow>
         in_flight s' = in_flight s
         \<and> (e = NotInitialized
            \<or> (\<exists>filePath fileType fileName.
                  req = AddFileSource filePath fileType fileName \<and> e = FailedToLoadFile fileName)))"
  by (auto simp: submit_def split: request.splits sum.splits if_splits)

theorem submit_accepts_regardless_of_in_flight_witness:
  "ragApplication (state (ready_server\<lparr>in_flight := [AddWebSource docs_url]\<rparr>))
   \<and> submit example_ext (AddWebSource docs_url) (ready_server\<lparr>in_flight := [AddWebSource docs_url]\<rparr>)
      = (None, ready_server\<lparr>in_flight := [AddWebSource docs_url, AddWebSource docs_url]\<rparr>)
   \<and> createLoader (asc ''/app/uploads/a_1.pdf'') (asc ''application/pdf'')
      = Inr (PdfLoader (asc ''/app/uploads/a_1.pdf''))
   \<and> submit example_ext (AddWebSource docs_url) \<lparr>state = ready_world\<lparr>ragApplication := False\<rparr>, in_flight = []\<rparr>
      = (Some NotInitialized, \<lparr>state = ready_world\<lparr>ragApplication := False\<rparr>, in_flight = []\<rparr>)"
proof -
  have a: "ragApplication (state (ready_server\<lparr>in_flight := [AddWebSource docs_url]\<rparr>))"
    by (simp add: ready_server_def ready_world_def)
  have b: "createLoader (asc ''/app/uploads/a_1.pdf'') (asc ''application/pdf'')
      = Inr (PdfLoader (asc ''/app/uploads/a_1.pdf''))"
    by (simp add: createLoader_def)
  have c: "submit example_ext (AddWebSource docs_url) \<lparr>state = ready_world\<lparr>ragApplication := False\<rparr>, in_flight = []\<rparr>
      = (Some NotInitialized, \<lparr>state = ready_world\<lparr>ragApplication := False\<rparr>, in_flight = []\<rparr>)"
    by (simp add: submit_def)
  show ?thesis
    using a b c
      submit_accepts_regardless_of_in_flight
        [of "ready_server\<lparr>in_flight := [AddWebSource docs_url]\<rparr>" example_ext docs_url]
    by simp
qed

text \<open>
  Two requests for the same page, the second while the first is in flight: both start
  their library call.
\<close>

theorem second_ingestion_counterexample:
  "fst (submit example_ext (AddWebSource docs_url) ready_server) = None
   \<and> fst (submit example_ext (AddWebSource docs_url)
          (snd (submit example_ext (AddWebSource docs_url) ready_server))) = None
   \<and> in_flight (snd (submit example_ext (AddWebSource docs_url)
          (snd (submit example_ext (AddWebSource docs_url) ready_server))))
      = [AddWebSource docs_url, AddWebSource docs_url]"
  by (simp add: submit_def ready_server_def ready_world_def)

subsection \<open>The result of a web ingestion\<close>

text \<open>
  Claim C3 says that a successful web ingestion returns the normalized URL and the number
  of chunks. What holds: on an initialised service, when the library call resolves and
  the URL parses, \<open>addWebSource\<close> returns the markup \<open><div>- HOST</div>\<close> with the host
  name of the URL, and the store is the one the library left.
\<close>

theorem addWebSource_returns_hostname_markup:
  "ragApplication w \<and> addLoader ext (web_loader cfg url) (db w) = (Some n, d)
     \<and> URL_hostname ext url = Some hostname \<longrightarrow>
   addWebSource ext cfg url w = (Inr (asc ''<div>- '' @ hostname @ asc ''</div>''), w\<lparr>db := d\<rparr>)"
  by (simp add: addWebSource_def)

theorem addWebSource_returns_hostname_markup_witness:
  "ragApplication ready_world
   \<and> addLoader example_ext (web_loader default_config docs_url) (db ready_world)
       = (Some 1, Some [first_chunk (web_loader default_config docs_url)])
   \<and> URL_hostname example_ext docs_url = Some (asc ''example.com'')
   \<and> addWebSource example_ext default_config docs_url ready_world
       = (Inr (asc ''<div>- '' @ asc ''example.com'' @ asc ''</div>''),
          ready_world\<lparr>db := Some [first_chunk (web_loader default_config docs_url)]\<rparr>)"
proof -
  have a: "ragApplication ready_world" by (simp add: ready_world_def)
  have b: "addLoader example_ext (web_loader default_config docs_url) (db ready_world)
       = (Some 1, Some [first_chunk (web_loader default_config docs_url)])"
    by (simp add: example_ext_def ready_world_def rows_of_def web_loader_def default_config_def
        appConfig_def or_default_def)
  have c: "URL_hostname example_ext docs_url = Some (asc ''example.com'')"
    by (simp add: example_ext_def docs_url_def)
  show ?thesis
    using a b c addWebSource_returns_hostname_markup [of ready_world example_ext default_config
        docs_url 1 "Some [first_chunk (web_loader default_config docs_url)]" "asc ''example.com''"]
    by blast
qed

text \<open>
  A load of one entry and a load of seven return the same string, which is not the URL.
\<close>

theorem web_confirmation_counterexample:
  "fst (addWebSource example_ext default_config docs_url ready_world)
     = Inr (asc ''<div>- example.com</div>'')
   \<and> record_count (snd (addWebSource example_ext default_config docs_url ready_world)) = 1
   \<and> fst (addWebSource ext_seven_chunks default_config docs_url ready_world)
     = Inr (asc ''<div>- example.com</div>'')
   \<and> record_count (snd (addWebSource ext_seven_chunks default_config docs_url ready_world)) = 7
   \<and> asc ''<div>- example.com</div>'' \<noteq> docs_url"
  by (simp add: addWebSource_def example_ext_def ext_seven_chunks_def ready_world_def docs_url_def
      record_count_def rows_of_def asc_def web_loader_def default_config_def appConfig_def
      or_default_def)

section \<open>Configuration of the chunker\<close>

lemma overlap_config_eq:
  "overlap_config = default_config\<lparr>chunkSize := Num 100, chunkOverlap := Num 200\<rparr>"
  by (simp add: overlap_config_def default_config_def appConfig_def or_default_def)

text \<open>
  Claim C4 says that a chunk overlap not below the chunk size makes startup fail and that
  no call checks it. The code of the repository compares the two nowhere. What holds: each
  is the number read from its environment variable, or its default (400 and 50) when that
  number is falsy, and the defaults satisfy overlap below size; startup does not depend on
  them; \<open>addWebSource\<close> hands them to the web loader as they are and adds no check of its
  own, so that whatever the values are, the call fails with \<open>Failed to load web source\<close>
  when the library throws on that loader and returns the markup when the library resolves.
  A rejection of the values is therefore the library's, on each call.
\<close>

theorem chunk_settings_unchecked:
  "initializeApp ext (cfg\<lparr>chunkSize := cs, chunkOverlap := co\<rparr>) w = initializeApp ext cfg w
   \<and> web_loader (cfg\<lparr>chunkSize := cs, chunkOverlap := co\<rparr>) url = WebLoader url cs co
   \<and> chunkSize (appConfig num env) = or_default (num ''CHUNK_SIZE'') (Num 400)
   \<and> chunkOverlap (appConfig num env) = or_default (num ''CHUNK_OVERLAP'') (Num 50)
   \<and> js_gt (chunkSize default_config) (chunkOverlap default_config)
   \<and> (ragApplication w \<and> addLoader ext (WebLoader url cs co) (db w) = (None, d) \<longrightarrow>
        addWebSource ext (cfg\<lparr>chunkSize := cs, chunkOverlap := co\<rparr>) url w
          = (Inl (FailedToLoadWebSource url), w\<lparr>db := d\<rparr>))
   \<and> (ragApplication w \<and> addLoader ext (WebLoader url cs co) (db w) = (Some k, d)
        \<and> URL_hostname ext url = Some hostname \<longrightarrow>
        addWebSource ext (cfg\<lparr>chunkSize := cs, chunkOverlap := co\<rparr>) url w
          = (Inr (asc ''<div>- '' @ hostname @ asc ''</div>''), w\<lparr>db := d\<rparr>))"
proof -
  have 1: "initializeApp ext (cfg\<lparr>chunkSize := cs, chunkOverlap := co\<rparr>) w = initializeApp ext cfg w"
    by (simp add: initializeApp_def initialize_def split: prod.splits bool.splits)
  have 2: "web_loader (cfg\<lparr>chunkSize := cs, chunkOverlap := co\<rparr>) url = WebLoader url cs co"
    by (simp add: web_loader_def)
  have 3: "chunkSize (appConfig num env) = or_default (num ''CHUNK_SIZE'') (Num 400)"
    "chunkOverlap (appConfig num env) = or_default (num ''CHUNK_OVERLAP'') (Num 50)"
    "js_gt (chunkSize default_config) (chunkOverlap default_config)"
    by (simp_all add: appConfig_def default_config_def or_default_def)
  have 4: "ragApplication w \<and> addLoader ext (WebLoader url cs co) (db w) = (None, d) \<longrightarrow>
        addWebSource ext (cfg\<lparr>chunkSize := cs, chunkOverlap := co\<rparr>) url w
          = (Inl (FailedToLoadWebSource url), w\<lparr>db := d\<rparr>)"
    by (simp add: addWebSource_def 2)
  have 5: "ragApplication w \<and> addLoader ext (WebLoader url cs co) (db w) = (Some k, d)
        \<and> URL_hostname ext url = Some hostname \<longrightarrow>
        addWebSource ext (cfg\<lparr>chunkSize := cs, chunkOverlap := co\<rparr>) url w
          = (Inr (asc ''<div>- '' @ hostname @ asc ''</div>''), w\<lparr>db := d\<rparr>)"
    by (simp add: addWebSource_def 2)
  show ?thesis by (intro conjI 1 2 3 4 5)
qed

theorem chunk_settings_unchecked_witness:
  "ragApplication ready_world
   \<and> addLoader example_ext (WebLoader docs_url (Num 100) (Num 200)) (db ready_world)
       = (None, Some [])
   \<and> addWebSource example_ext (default_config\<lparr>chunkSize := Num 100, chunkOverlap := Num 200\<rparr>)
        docs_url ready_world
       = (Inl (FailedToLoadWebSource docs_url), ready_world)
   \<and> addLoader example_ext (WebLoader docs_url (Num 400) (Num 50)) (db ready_world)
       = (Some 1, Some [first_chunk (WebLoader docs_url (Num 400) (Num 50))])
   \<and> URL_hostname example_ext docs_url = Some (asc ''example.com'')
   \<and> fst (addWebSource example_ext (default_config\<lparr>chunkSize := Num 400, chunkOverlap := Num 50\<rparr>)
        docs_url ready_world)
       = Inr (asc ''<div>- '' @ asc ''example.com'' @ asc ''</div>'')"
proof -
  have a: "ragApplication ready_world" by (simp add: ready_world_def)
  have b: "addLoader example_ext (WebLoader docs_url (Num 100) (Num 200)) (db ready_world)
       = (None, Some [])"
    by (simp add: example_ext_def ready_world_def)
  have c: "addLoader example_ext (WebLoader docs_url (Num 400) (Num 50)) (db ready_world)
       = (Some 1, Some [first_chunk (WebLoader docs_url (Num 400) (Num 50))])"
    by (simp add: example_ext_def ready_world_def rows_of_def)
  have h: "URL_hostname example_ext docs_url = Some (asc ''example.com'')"
    by (simp add: example_ext_def docs_url_def)
  have e: "ready_world\<lparr>db := Some []\<rparr> = ready_world" by (simp add: ready_world_def)
  note r1 = chunk_settings_unchecked [where ext = example_ext and cfg = default_config
      and cs = "Num 100" and co = "Num 200" and w = ready_world and url = docs_url
      and d = "Some []",
      THEN conjunct2, THEN conjunct2, THEN conjunct2, THEN conjunct2, THEN conjunct2,
      THEN conjunct1, THEN mp, OF conjI [OF a b], unfolded e]
  note r2 = chunk_settings_unchecked [where ext = example_ext and cfg = default_config
      and cs = "Num 400" and co = "Num 50" and w = ready_world and url = docs_url
      and d = "Some [first_chunk (WebLoader docs_url (Num 400) (Num 50))]" and k = 1
      and hostname = "asc ''example.com''",
      THEN conjunct2, THEN conjunct2, THEN conjunct2, THEN conjunct2, THEN conjunct2,
      THEN conjunct2, THEN mp, OF conjI [OF a conjI [OF c h]]]
  show ?thesis
    unfolding r1 r2 by (simp add: a b c h)
qed

text \<open>
  With \<open>CHUNK_SIZE=100\<close> and \<open>CHUNK_OVERLAP=200\<close> startup succeeds; the web loader is
  built with these values, and it is the load that fails.
\<close>

theorem overlap_check_counterexample:
  "js_ge (chunkOverlap overlap_config) (chunkSize overlap_config)
   \<and> initializeApp example_ext overlap_config fresh_world = Some ready_world
   \<and> web_loader overlap_config docs_url = WebLoader docs_url (Num 100) (Num 200)
   \<and> addWebSource example_ext overlap_config docs_url ready_world
       = (Inl (FailedToLoadWebSource docs_url), ready_world)"
  by (simp add: overlap_config_eq default_config_def appConfig_def or_default_def
      initializeApp_def initialize_def example_ext_def fresh_world_def ready_world_def rows_of_def
      web_loader_def addWebSource_def)

section \<open>Clearing the store\<close>

text \<open>
  When the database file is absent or can be removed, and the library creates an empty
  store where no file is, \<open>clearSources\<close> completes with an empty store and an
  initialised service.
\<close>

lemma clearSources_empties_removable_store:
  "build ext (database_path cfg) None = (True, Some [])
     \<and> (db w = None \<or> may_unlink ext (database_path cfg)) \<longrightarrow>
   clearSources ext cfg w = (Inr (), w\<lparr>ragApplication := True, db := Some []\<rparr>)
   \<and> record_count (snd (clearSources ext cfg w)) = 0
   \<and> isInitialized (snd (clearSources ext cfg w))
   \<and> query ext q (snd (clearSources ext cfg w)) \<noteq> Inl NotInitialized
   \<and> fst (addWebSource ext cfg url (snd (clearSources ext cfg w))) \<noteq> Inl NotInitialized"
proof (intro impI)
  assume h: "build ext (database_path cfg) None = (True, Some [])
     \<and> (db w = None \<or> may_unlink ext (database_path cfg))"
  have u: "db (snd (unlink_db ext cfg w)) = None"
    using h by (auto simp: unlink_db_def)
  have r: "snd (unlink_db ext cfg w)\<lparr>ragApplication := True, db := Some []\<rparr>
           = w\<lparr>ragApplication := True, db := Some []\<rparr>"
    by (simp add: unlink_db_def)
  have c: "clearSources ext cfg w = (Inr (), w\<lparr>ragApplication := True, db := Some []\<rparr>)"
    using h u r by (simp add: clearSources_def initialize_def)
  show "clearSources ext cfg w = (Inr (), w\<lparr>ragApplication := True, db := Some []\<rparr>)
   \<and> record_count (snd (clearSources ext cfg w)) = 0
   \<and> isInitialized (snd (clearSources ext cfg w))
   \<and> query ext q (snd (clearSources ext cfg w)) \<noteq> Inl NotInitialized
   \<and> fst (addWebSource ext cfg url (snd (clearSources ext cfg w))) \<noteq> Inl NotInitialized"
    unfolding c
    by (simp add: record_count_def isInitialized_def query_def addWebSource_def
        split: option.splits prod.splits)
qed

lemma clearSources_removable_example:
  "build example_ext (database_path default_config) None = (True, Some [])
   \<and> may_unlink example_ext (database_path default_config)
   \<and> clearSources example_ext default_config (ready_world\<lparr>db := Some [one_row]\<rparr>)
       = (Inr (), ready_world)
   \<and> record_count ready_world = 0"
proof -
  have a: "build example_ext (database_path default_config) None = (True, Some [])"
    by (simp add: example_ext_def rows_of_def)
  have b: "may_unlink example_ext (database_path default_config)"
    by (simp add: example_ext_def)
  have c: "(ready_world\<lparr>db := Some [one_row]\<rparr>)\<lparr>ragApplication := True, db := Some []\<rparr> = ready_world"
    by (simp add: ready_world_def)
  show ?thesis
    using a b clearSources_empties_removable_store [of example_ext default_config
        "ready_world\<lparr>db := Some [one_row]\<rparr>"]
    unfolding c by (simp add: record_count_def ready_world_def)
qed

text \<open>
  Claim C5 says that after \<open>clearSources\<close> completes the store holds no record, for every
  prior state. \<open>clearSources\<close> is documented to clear all sources and logs that it has
  done so, but it ignores a failure to remove the database file: when the file cannot be
  removed, the call completes, the service is initialised again on the old file, and the
  record is still there.
\<close>

theorem clearSources_keeps_undeletable_store:
  "clearSources ext_no_unlink default_config (ready_world\<lparr>db := Some [one_row]\<rparr>)
     = (Inr (), ready_world\<lparr>db := Some [one_row]\<rparr>)
   \<and> record_count (snd (clearSources ext_no_unlink default_config
        (ready_world\<lparr>db := Some [one_row]\<rparr>))) = 1"
  by (simp add: clearSources_def unlink_db_def initialize_def ext_no_unlink_def example_ext_def
      ready_world_def record_count_def rows_of_def)

section \<open>Questions\<close>

subsection \<open>Blank questions\<close>

lemma trim_empty_iff: "trim q = [] \<longleftrightarrow> (\<forall>c \<in> set q. js_whitespace c)"
proof
  assume "trim q = []"
  then have "dropWhile js_whitespace (rev (dropWhile js_whitespace q)) = []"
    by (simp add: trim_def)
  then have all: "\<forall>c \<in> set (dropWhile js_whitespace q). js_whitespace c"
    by (simp add: dropWhile_eq_Nil_conv)
  have "dropWhile js_whitespace q = []"
  proof (rule ccontr)
    assume ne: "dropWhile js_whitespace q \<noteq> []"
    then have "\<not> js_whitespace (hd (dropWhile js_whitespace q))" by (rule hd_dropWhile)
    moreover have "hd (dropWhile js_whitespace q) \<in> set (dropWhile js_whitespace q)"
      using ne by simp
    ultimately show False using all by blast
  qed
  then show "\<forall>c \<in> set q. js_whitespace c" by (simp add: dropWhile_eq_Nil_conv)
next
  assume "\<forall>c \<in> set q. js_whitespace c"
  then have "dropWhile js_whitespace q = []" by (simp add: dropWhile_eq_Nil_conv)
  then show "trim q = []" by (simp add: trim_def del: dropWhile_eq_Nil_conv)
qed

lemma query_errors: "query ext q w = Inl e \<Longrightarrow> e = NotInitialized \<or> e = FailedToProcessQuery"
  by (auto simp: query_def split: if_splits option.splits)

lemma blank_iff: "(q = [] \<or> length (trim q) = 0) \<longleftrightarrow> (\<forall>c \<in> set q. js_whitespace c)"
  using trim_empty_iff [of q] by auto

lemma chat_blank:
  assumes "\<forall>c \<in> set q. js_whitespace c"
  shows "chat_handler ext q w = Inl QueryCannotBeEmpty"
proof -
  have "q = [] \<or> length (trim q) = 0" using assms blank_iff by blast
  then show ?thesis unfolding chat_handler_def by (rule if_P)
qed

lemma chat_not_blank:
  assumes "\<not> (\<forall>c \<in> set q. js_whitespace c)"
  shows "chat_handler ext q w =
            (if \<not> isInitialized w then Inl ServiceNotInitialized
             else (case query ext (trim q) w of
                     Inl e \<Rightarrow> Inl e
                   | Inr Undefined \<Rightarrow> Inl AnswerIsNotAString
                   | Inr (Text answer) \<Rightarrow> Inr (assistant_message answer)))"
proof -
  have "\<not> (q = [] \<or> length (trim q) = 0)" using assms blank_iff by blast
  then show ?thesis unfolding chat_handler_def by (rule if_not_P)
qed

lemma chat_not_blank_error:
  assumes "\<not> (\<forall>c \<in> set q. js_whitespace c)"
  shows "chat_handler ext q w \<noteq> Inl QueryCannotBeEmpty"
proof (cases "isInitialized w")
  case False
  then show ?thesis unfolding chat_not_blank [OF assms] by simp
next
  case True
  show ?thesis
  proof (cases "query ext (trim q) w")
    case (Inl e)
    then have "e \<noteq> QueryCannotBeEmpty" using query_errors [of ext "trim q" w e] by auto
    with Inl True show ?thesis unfolding chat_not_blank [OF assms] by simp
  next
    case (Inr a)
    with True show ?thesis unfolding chat_not_blank [OF assms] by (cases a) simp_all
  qed
qed

text \<open>
  Claim C6. The chat handler throws \<open>Query cannot be empty\<close> exactly when every code
  unit of the question is white space (the empty question included); it does so whatever
  the library and the state are, so nothing is called. Any other question passes the
  check: its trimmed form is not empty and the handler goes on to the initialisation guard
  and to \<open>query\<close> with the trimmed question.
\<close>

theorem chat_rejects_blank_questions:
  "(chat_handler ext q w = Inl QueryCannotBeEmpty \<longleftrightarrow> (\<forall>c \<in> set q. js_whitespace c))
   \<and> ((\<forall>c \<in> set q. js_whitespace c) \<longrightarrow>
        (\<forall>ext' w'. chat_handler ext' q w' = Inl QueryCannotBeEmpty))
   \<and> (\<not> (\<forall>c \<in> set q. js_whitespace c) \<longrightarrow>
        trim q \<noteq> []
        \<and> chat_handler ext q w =
            (if \<not> isInitialized w then Inl ServiceNotInitialized
             else (case query ext (trim q) w of
                     Inl e \<Rightarrow> Inl e
                   | Inr Undefined \<Rightarrow> Inl AnswerIsNotAString
                   | Inr (Text answer) \<Rightarrow> Inr (assistant_message answer))))"
proof (intro conjI impI allI)
  show "chat_handler ext q w = Inl QueryCannotBeEmpty \<longleftrightarrow> (\<forall>c \<in> set q. js_whitespace c)"
    using chat_blank [of q ext w] chat_not_blank_error [of q ext w] by blast
next
  fix ext' w'
  assume "\<forall>c \<in> set q. js_whitespace c"
  then show "chat_handler ext' q w' = Inl QueryCannotBeEmpty" by (rule chat_blank)
next
  assume "\<not> (\<forall>c \<in> set q. js_whitespace c)"
  then show "trim q \<noteq> []" using trim_empty_iff [of q] by blast
next
  assume "\<not> (\<forall>c \<in> set q. js_whitespace c)"
  then show "chat_handler ext q w =
            (if \<not> isInitialized w then Inl ServiceNotInitialized
             else (case query ext (trim q) w of
                     Inl e \<Rightarrow> Inl e
                   | Inr Undefined \<Rightarrow> Inl AnswerIsNotAString
                   | Inr (Text answer) \<Rightarrow> Inr (assistant_message answer)))"
    by (rule chat_not_blank)
qed

theorem chat_rejects_blank_questions_witness:
  "list_all js_whitespace [0x20, 0x09, 0x00A0]
   \<and> chat_handler example_ext [0x20, 0x09, 0x00A0] ready_world = Inl QueryCannotBeEmpty
   \<and> \<not> list_all js_whitespace (asc '' why '')
   \<and> trim (asc '' why '') = asc ''why''
   \<and> chat_handler example_ext (asc '' why '') ready_world
       = Inr (assistant_message (asc ''forty-two''))"
proof -
  have a: "list_all js_whitespace [0x20, 0x09, 0x00A0]"
    by (simp add: js_whitespace_def)
  have b: "\<not> list_all js_whitespace (asc '' why '')"
    by (simp add: js_whitespace_def asc_def)
  have t: "trim (asc '' why '') = asc ''why''"
    by (simp add: trim_def js_whitespace_def asc_def)
  have q: "query example_ext (asc ''why'') ready_world = Inr (Text (asc ''forty-two''))"
    by (simp add: query_def example_ext_def ready_world_def formatResponse_def truthy_field_def
        asc_def)
  have i: "isInitialized ready_world" by (simp add: isInitialized_def ready_world_def)
  show ?thesis
    using a b t q i chat_rejects_blank_questions [of example_ext "[0x20, 0x09, 0x00A0]" ready_world]
      chat_rejects_blank_questions [of example_ext "asc '' why ''" ready_world]
    unfolding list_all_iff by simp
qed

subsection \<open>The answer\<close>

lemma formatResponse_verbatim:
  "c \<noteq> [] \<Longrightarrow> formatResponse ext (Object (Some c) text) = Some (Text c)"
  "formatResponse ext (Str s) = Some (Text s)"
  by (simp_all add: formatResponse_def truthy_field_def)

lemma query_verbatim:
  assumes "ragApplication w" and "lib_query ext q (db w) = Some (Object (Some c) t)" and "c \<noteq> []"
  shows "query ext q w = Inr (Text c)"
  using assms by (simp add: query_def formatResponse_def truthy_field_def)

lemma query_fails_when_library_throws:
  "ragApplication w \<Longrightarrow> lib_query ext q (db w) = None \<Longrightarrow> query ext q w = Inl FailedToProcessQuery"
  by (simp add: query_def)

text \<open>
  Claim C9 says that \<open>query\<close> returns the generator's text as it is. A response with
  non-empty content is returned verbatim (\<open>query_verbatim\<close>), but empty content counts as
  absent: the result is then the serialised response object, not the empty text.
\<close>

theorem query_empty_content_returns_json:
  "lib_query ext_empty_answer q (db ready_world) = Some (Object (Some []) None)
   \<and> query ext_empty_answer q ready_world
       = Inr (Text (asc ''{'' @ [0x22] @ asc ''content'' @ [0x22] @ asc '':'' @ [0x22, 0x22]
                    @ asc ''}''))
   \<and> query ext_empty_answer q ready_world \<noteq> Inr (Text [])"
  by (simp add: query_def ext_empty_answer_def example_ext_def ready_world_def formatResponse_def
      truthy_field_def asc_def)

section \<open>File sources\<close>

subsection \<open>Unsupported types\<close>

lemma recognized_types:
  "t \<in> set (allowedTypes (appConfig num env)) \<longleftrightarrow>
     t = asc ''application/pdf'' \<or> t = asc ''text/markdown'' \<or> t = asc ''text/plain''"
  by (auto simp: appConfig_def)

lemma addFileSource_errors:
  "fst (addFileSource ext p t n w) = Inl e \<Longrightarrow> e = NotInitialized \<or> e = FailedToLoadFile n"
  by (auto simp: addFileSource_def split: if_splits sum.splits prod.splits option.splits)

lemma validateFile_size:
  "validateFile cfg file = Some FileSizeExceeds \<longleftrightarrow>
     js_gt (Num (real (fsize file))) (maxFileSize cfg)"
  by (simp add: validateFile_def)

lemma validateFile_type:
  "validateFile cfg file = Some (FileTypeNotSupported (type file)) \<longleftrightarrow>
     \<not> js_gt (Num (real (fsize file))) (maxFileSize cfg) \<and> type file \<notin> set (allowedTypes cfg)"
  by (simp add: validateFile_def)

lemma add_file_handler_rejected:
  "validateFile cfg file = Some e \<Longrightarrow> add_file_handler ext cfg now file w = (Inl e, w)"
  by (simp add: add_file_handler_def saveFile_def)

lemma add_file_handler_type_error:
  "fst (add_file_handler ext cfg now file w) = Inl (FileTypeNotSupported (type file)) \<longleftrightarrow>
     \<not> js_gt (Num (real (fsize file))) (maxFileSize cfg) \<and> type file \<notin> set (allowedTypes cfg)"
proof
  assume h: "fst (add_file_handler ext cfg now file w) = Inl (FileTypeNotSupported (type file))"
  show "\<not> js_gt (Num (real (fsize file))) (maxFileSize cfg) \<and> type file \<notin> set (allowedTypes cfg)"
  proof (cases "validateFile cfg file")
    case (Some e)
    then have "e = FileTypeNotSupported (type file)"
      using h add_file_handler_rejected [of cfg "file" e ext now w] by simp
    with Some show ?thesis using validateFile_type [of cfg "file"] by simp
  next
    case None
    show ?thesis
    proof (cases "saveFile ext cfg now file w")
      case (Pair r w')
      show ?thesis
      proof (cases r)
        case (Inl e)
        with Pair None have "e = FailedToSaveUploadedFile"
          by (auto simp: saveFile_def Let_def split: if_splits)
        with Pair Inl h show ?thesis by (simp add: add_file_handler_def)
      next
        case (Inr up)
        with Pair h have "fst (addFileSource ext (up_path up) (up_type up) (up_name up) w')
            = Inl (FileTypeNotSupported (type file))"
          by (simp add: add_file_handler_def)
        then show ?thesis using addFileSource_errors by blast
      qed
    qed
  qed
next
  assume "\<not> js_gt (Num (real (fsize file))) (maxFileSize cfg) \<and> type file \<notin> set (allowedTypes cfg)"
  then have "validateFile cfg file = Some (FileTypeNotSupported (type file))"
    using validateFile_type by blast
  then show "fst (add_file_handler ext cfg now file w) = Inl (FileTypeNotSupported (type file))"
    using add_file_handler_rejected by simp
qed

lemma validated_type_has_loader:
  assumes "validateFile (appConfig num env) file = None"
  shows "createLoader p (type file) = Inr (PdfLoader p) \<or> createLoader p (type file) = Inr (MarkdownLoader p)"
proof -
  have "type file \<in> set (allowedTypes (appConfig num env))"
    using assms by (auto simp: validateFile_def split: if_splits)
  then have "type file = asc ''application/pdf'' \<or> type file = asc ''text/markdown''
      \<or> type file = asc ''text/plain''"
    unfolding recognized_types .
  then show ?thesis by (auto simp: createLoader_def)
qed

text \<open>
  Claim C7 says that ingesting a file fails with the unsupported-type error exactly when
  its declared type is not one of the three recognised. \<open>validateFile\<close> checks the size
  first. What holds: \<open>createLoader\<close> throws its unsupported-type error exactly when the
  type is not recognised, and no other error; it picks the PDF loader for
  \<open>application/pdf\<close> and the markdown loader for \<open>text/markdown\<close> and
  \<open>text/plain\<close>. \<open>validateFile\<close> rejects with the size error exactly when the file is
  above the limit, whatever its type, and with the type error exactly when the file is not
  above the limit and its type is not recognised. The upload route ends with what
  \<open>validateFile\<close> rejects and with the state unchanged; it ends with the type error
  exactly when the file is not above the limit and its type is not recognised, and with
  the size error whenever the file is above the limit. A file that passes \<open>validateFile\<close>
  has a loader. The errors carry the declared type or nothing, never text of the file.
\<close>

theorem unsupported_type_rejection:
  "(createLoader p t = Inl (UnsupportedFileType t) \<longleftrightarrow> t \<notin> set (allowedTypes (appConfig num env)))
   \<and> (\<forall>e. createLoader p t = Inl e \<longrightarrow> e = UnsupportedFileType t)
   \<and> createLoader p (asc ''application/pdf'') = Inr (PdfLoader p)
   \<and> createLoader p (asc ''text/markdown'') = Inr (MarkdownLoader p)
   \<and> createLoader p (asc ''text/plain'') = Inr (MarkdownLoader p)
   \<and> (validateFile cfg file = Some FileSizeExceeds \<longleftrightarrow>
        js_gt (Num (real (fsize file))) (maxFileSize cfg))
   \<and> (validateFile cfg file = Some (FileTypeNotSupported (type file)) \<longleftrightarrow>
        \<not> js_gt (Num (real (fsize file))) (maxFileSize cfg) \<and> type file \<notin> set (allowedTypes cfg))
   \<and> (\<forall>e. validateFile cfg file = Some e \<longrightarrow>
        add_file_handler ext cfg now file w = (Inl e, w))
   \<and> (fst (add_file_handler ext cfg now file w) = Inl (FileTypeNotSupported (type file)) \<longleftrightarrow>
        \<not> js_gt (Num (real (fsize file))) (maxFileSize cfg) \<and> type file \<notin> set (allowedTypes cfg))
   \<and> (js_gt (Num (real (fsize file))) (maxFileSize cfg) \<longrightarrow>
        add_file_handler ext cfg now file w = (Inl FileSizeExceeds, w))
   \<and> (validateFile (appConfig num env) file = None \<longrightarrow>
        createLoader p (type file) = Inr (PdfLoader p)
        \<or> createLoader p (type file) = Inr (MarkdownLoader p))"
proof -
  have 1: "createLoader p t = Inl (UnsupportedFileType t) \<longleftrightarrow> t \<notin> set (allowedTypes (appConfig num env))"
    unfolding recognized_types by (simp add: createLoader_def)
  have 2: "\<forall>e. createLoader p t = Inl e \<longrightarrow> e = UnsupportedFileType t"
    by (auto simp: createLoader_def split: if_splits)
  have 3: "createLoader p (asc ''application/pdf'') = Inr (PdfLoader p)"
    "createLoader p (asc ''text/markdown'') = Inr (MarkdownLoader p)"
    "createLoader p (asc ''text/plain'') = Inr (MarkdownLoader p)"
    by (simp_all add: createLoader_def asc_def)
  have 6: "\<forall>e. validateFile cfg file = Some e \<longrightarrow> add_file_handler ext cfg now file w = (Inl e, w)"
    using add_file_handler_rejected by blast
  have 7: "js_gt (Num (real (fsize file))) (maxFileSize cfg) \<longrightarrow>
        add_file_handler ext cfg now file w = (Inl FileSizeExceeds, w)"
    using validateFile_size [of cfg "file"] add_file_handler_rejected [of cfg "file" FileSizeExceeds]
    by simp
  have 8: "validateFile (appConfig num env) file = None \<longrightarrow>
        createLoader p (type file) = Inr (PdfLoader p)
        \<or> createLoader p (type file) = Inr (MarkdownLoader p)"
    using validated_type_has_loader by blast
  show ?thesis
    by (intro conjI 1 2 3 6 7 8 validateFile_size validateFile_type add_file_handler_type_error)
qed

theorem unsupported_type_rejection_witness:
  "asc ''image/png'' \<notin> set (allowedTypes (appConfig (\<lambda>x. NaN) Map.empty))
   \<and> createLoader (asc ''/app/uploads/pic_42.png'') (asc ''image/png'')
       = Inl (UnsupportedFileType (asc ''image/png''))
   \<and> \<not> js_gt (Num (real (fsize small_png))) (maxFileSize default_config)
   \<and> validateFile default_config small_png = Some (FileTypeNotSupported (asc ''image/png''))
   \<and> add_file_handler example_ext default_config 42 small_png ready_world
       = (Inl (FileTypeNotSupported (asc ''image/png'')), ready_world)
   \<and> js_gt (Num (real (fsize big_png))) (maxFileSize default_config)
   \<and> add_file_handler example_ext default_config 42 big_png ready_world
       = (Inl FileSizeExceeds, ready_world)"
proof -
  have b: "asc ''image/png'' \<notin> set (allowedTypes (appConfig (\<lambda>x. NaN) Map.empty))"
    by (simp add: appConfig_def asc_def)
  have c: "\<not> js_gt (Num (real (fsize small_png))) (maxFileSize default_config)"
    by (simp add: small_png_def default_config_def appConfig_def or_default_def)
  have d: "type small_png = asc ''image/png''" by (simp add: small_png_def)
  have e: "type small_png \<notin> set (allowedTypes default_config)"
    using b unfolding d default_config_def .
  have g: "js_gt (Num (real (fsize big_png))) (maxFileSize default_config)"
    by (simp add: big_png_def default_config_def appConfig_def or_default_def)
  note t = unsupported_type_rejection [where p = "asc ''/app/uploads/pic_42.png''"
      and t = "asc ''image/png''" and num = "\<lambda>x. NaN" and env = Map.empty
      and cfg = default_config and ?file = small_png and ext = example_ext and now = 42
      and w = ready_world]
  note t6 = t [THEN conjunct2, THEN conjunct2, THEN conjunct2, THEN conjunct2, THEN conjunct2,
      THEN conjunct2]
  note u9 = unsupported_type_rejection [where cfg = default_config and ?file = big_png
      and ext = example_ext and now = 42 and w = ready_world,
      THEN conjunct2, THEN conjunct2, THEN conjunct2, THEN conjunct2, THEN conjunct2,
      THEN conjunct2, THEN conjunct2, THEN conjunct2, THEN conjunct2]
  have 1: "createLoader (asc ''/app/uploads/pic_42.png'') (asc ''image/png'')
       = Inl (UnsupportedFileType (asc ''image/png''))"
    by (rule t [THEN conjunct1, THEN iffD2, OF b])
  have 2: "validateFile default_config small_png = Some (FileTypeNotSupported (type small_png))"
    by (rule t6 [THEN conjunct1, THEN iffD2, OF conjI [OF c e]])
  have 3: "add_file_handler example_ext default_config 42 small_png ready_world
       = (Inl (FileTypeNotSupported (type small_png)), ready_world)"
    by (rule t6 [THEN conjunct2, THEN conjunct1, THEN spec, THEN mp, OF 2])
  have 4: "add_file_handler example_ext default_config 42 big_png ready_world
       = (Inl FileSizeExceeds, ready_world)"
    by (rule u9 [THEN conjunct1, THEN mp, OF g])
  show ?thesis by (intro conjI b c g 1 2 [unfolded d] 3 [unfolded d] 4)
qed

text \<open>
  A PNG above the size limit: its type is not recognised, and the request fails with the
  size error.
\<close>

theorem unsupported_type_counterexample:
  "type big_png \<notin> set (allowedTypes default_config)
   \<and> validateFile default_config big_png = Some FileSizeExceeds
   \<and> add_file_handler example_ext default_config 42 big_png ready_world
       = (Inl FileSizeExceeds, ready_world)"
proof -
  have a: "type big_png \<notin> set (allowedTypes default_config)"
    by (simp add: big_png_def default_config_def appConfig_def asc_def)
  have b: "validateFile default_config big_png = Some FileSizeExceeds"
    by (simp add: validateFile_def big_png_def default_config_def appConfig_def or_default_def)
  have c: "add_file_handler example_ext default_config 42 big_png ready_world
       = (Inl FileSizeExceeds, ready_world)"
    by (simp add: add_file_handler_def saveFile_def b)
  show ?thesis by (intro conjI a b c)
qed

subsection \<open>The temporary file\<close>

text \<open>
  The server takes requests only after startup has initialised the service, and no
  operation takes the application away again.
\<close>

lemma startup_initialises: "initializeApp ext cfg w = Some w' \<Longrightarrow> ragApplication w'"
  by (auto simp: initializeApp_def initialize_def split: prod.splits bool.splits if_splits)

lemma unlink_upload_keeps_application:
  "ragApplication (snd (unlink_upload ext p w)) = ragApplication w"
  by (simp add: unlink_upload_def)

lemma addWebSource_keeps_application:
  "ragApplication w \<Longrightarrow> ragApplication (snd (addWebSource ext cfg url w))"
  by (simp add: addWebSource_def split: prod.splits option.splits)

lemma addFileSource_keeps_application:
  "ragApplication w \<Longrightarrow> ragApplication (snd (addFileSource ext p t n w))"
  by (simp add: addFileSource_def unlink_upload_keeps_application
      split: prod.splits option.splits sum.splits)

lemma saveFile_keeps_application:
  "ragApplication w \<Longrightarrow> ragApplication (snd (saveFile ext cfg now file w))"
  by (simp add: saveFile_def Let_def split: option.splits)

lemma add_file_handler_keeps_application:
  assumes "ragApplication w"
  shows "ragApplication (snd (add_file_handler ext cfg now file w))"
proof (cases "saveFile ext cfg now file w")
  case (Pair r w')
  then have w': "ragApplication w'" using saveFile_keeps_application [OF assms, of ext cfg now "file"] by simp
  show ?thesis
  proof (cases r)
    case (Inl e)
    with Pair w' show ?thesis by (simp add: add_file_handler_def)
  next
    case (Inr up)
    with Pair show ?thesis
      using addFileSource_keeps_application [OF w'] by (simp add: add_file_handler_def)
  qed
qed

lemma clearSources_keeps_application:
  "ragApplication w \<Longrightarrow> ragApplication (snd (clearSources ext cfg w))"
  by (simp add: clearSources_def initialize_def unlink_db_def split: prod.splits bool.splits)



end
